theory Spec2Isabelle
  imports
    Complex_Main
    "HOL-Library.Char_ord"
    "HOL-Library.List_Lexorder"
    "HOL-Library.Product_Lexorder"
    "HOL-Library.AList"
begin

section \<open>Data model of \<open>App-Starter/app_completed.py\<close>\<close>

text \<open>
  The application reads two tables (the policy book and the claims transactions), builds
  the ACPH table from them with polars, and serves one product-filtered view of it to a
  grid, a plot, a curve fit and a save action. A polars \<open>DataFrame\<close> is modelled as the
  list of its rows, each table with a record for its columns. Columns keep their names;
  the columns of the input and intermediate tables carry a prefix, because a field name
  can belong to one record only.

  Numbers: \<open>NumHomes\<close> and the years are integers. \<open>PaymentAmount\<close> is a finite real
  (rounding of the 64-bit floats is not modelled). The quotient \<open>ACPH\<close> is a float that
  need not be finite, so it has its own type.
\<close>

datatype error = FileNotFoundError | IndexError | TypeError

datatype f64 = Fin real | PInf | NInf | NaN

record date =
  year :: int
  month :: nat
  day :: nat

record policy =
  p_PolicyID :: nat
  p_CohortYear :: int
  p_ProductType :: string
  p_NumHomes :: int

record claim =
  c_PolicyID :: nat
  c_ReportDate :: date
  c_PaymentAmount :: real

record exposure =
  e_CohortYear :: int
  e_TotalHomes :: int

record dev =
  d_CohortYear :: int
  d_DevYear :: int
  d_ProductType :: string
  d_TotalClaims :: real

record acph_row =
  CohortYear :: int
  DevYear :: int
  ProductType :: string
  TotalClaims :: real
  TotalHomes :: int
  ACPH :: f64

section \<open>Table operations of polars\<close>

text \<open>
  \<open>group_by\<close> yields one group per distinct key, with the rows of that key. Polars
  leaves the order of the groups open; here it is the order of the last occurrences.
  Every use below either sorts the result by the key or sums reals over it.
\<close>

definition group_by :: "('r \<Rightarrow> 'k) \<Rightarrow> 'r list \<Rightarrow> ('k \<times> 'r list) list" where
  "group_by key df = map (\<lambda>k. (k, filter (\<lambda>r. key r = k) df)) (remdups (map key df))"

text \<open>The inner join on one key column: every pair of rows with equal keys.\<close>

definition join_on :: "('a \<Rightarrow> 'k) \<Rightarrow> ('b \<Rightarrow> 'k) \<Rightarrow> 'a list \<Rightarrow> 'b list \<Rightarrow> ('a \<times> 'b) list" where
  "join_on ka kb xs ys = concat (map (\<lambda>x. map (Pair x) (filter (\<lambda>y. kb y = ka x) ys)) xs)"

text \<open>
  \<open>TotalClaims / TotalHomes\<close> is a float division: a zero divisor raises nothing and
  gives an infinity, or NaN for \<open>0 / 0\<close>.
\<close>

definition pl_div :: "real \<Rightarrow> int \<Rightarrow> f64" where
  "pl_div x n =
     (if n \<noteq> 0 then Fin (x / of_int n)
      else if 0 < x then PInf else if x < 0 then NInf else NaN)"

section \<open>The aggregator: \<open>load_data\<close>\<close>

definition df_exposure :: "policy list \<Rightarrow> exposure list" where
  "df_exposure df_policies =
     map (\<lambda>(k, g). \<lparr>e_CohortYear = k, e_TotalHomes = sum_list (map p_NumHomes g)\<rparr>)
       (group_by p_CohortYear df_policies)"

text \<open>The three grouping columns of a joined claim: \<open>CohortYear\<close>, \<open>DevYear\<close>, \<open>ProductType\<close>.\<close>

definition dev_key :: "claim \<times> policy \<Rightarrow> int \<times> int \<times> string" where
  "dev_key cp =
     (p_CohortYear (snd cp),
      year (c_ReportDate (fst cp)) - p_CohortYear (snd cp),
      p_ProductType (snd cp))"

definition df_dev :: "policy list \<Rightarrow> claim list \<Rightarrow> dev list" where
  "df_dev df_policies df_claims =
     map (\<lambda>(k, g). \<lparr>d_CohortYear = fst k, d_DevYear = fst (snd k), d_ProductType = snd (snd k),
                    d_TotalClaims = sum_list (map (\<lambda>cp. c_PaymentAmount (fst cp)) g)\<rparr>)
       (group_by dev_key (join_on c_PolicyID p_PolicyID df_claims df_policies))"

definition sort_cols :: "acph_row \<Rightarrow> string \<times> int \<times> int" where
  "sort_cols r = (ProductType r, CohortYear r, DevYear r)"

definition acph_of :: "dev \<times> exposure \<Rightarrow> acph_row" where
  "acph_of de =
     \<lparr>CohortYear = d_CohortYear (fst de), DevYear = d_DevYear (fst de),
      ProductType = d_ProductType (fst de), TotalClaims = d_TotalClaims (fst de),
      TotalHomes = e_TotalHomes (snd de),
      ACPH = pl_div (d_TotalClaims (fst de)) (e_TotalHomes (snd de))\<rparr>"

definition df_acph :: "policy list \<Rightarrow> claim list \<Rightarrow> acph_row list" where
  "df_acph df_policies df_claims =
     sort_key sort_cols
       (map acph_of
          (join_on d_CohortYear e_CohortYear (df_dev df_policies df_claims)
             (df_exposure df_policies)))"

text \<open>
  The file system as \<open>load_data\<close> sees it: for each directory, the contents of
  \<open>Policy_Book.parquet\<close> and of \<open>Claims_Transaction.parquet\<close> there, if the file
  exists. Reading a file that does not exist raises.
\<close>

record filesystem =
  Policy_Book :: "string \<Rightarrow> policy list option"
  Claims_Transaction :: "string \<Rightarrow> claim list option"

definition possible_paths :: "string list" where
  "possible_paths = [''.'', ''..'', ''../..'']"

definition read_parquet :: "'a option \<Rightarrow> error + 'a" where
  "read_parquet f = (case f of None \<Rightarrow> Inl FileNotFoundError | Some t \<Rightarrow> Inr t)"

definition load_data :: "filesystem \<Rightarrow> error + acph_row list" where
  "load_data fs =
     (case find (\<lambda>p. Policy_Book fs p \<noteq> None) possible_paths of
        None \<Rightarrow> Inr []
      | Some data_dir \<Rightarrow>
          (case read_parquet (Policy_Book fs data_dir) of
             Inl e \<Rightarrow> Inl e
           | Inr df_policies \<Rightarrow>
               (case read_parquet (Claims_Transaction fs data_dir) of
                  Inl e \<Rightarrow> Inl e
                | Inr df_claims \<Rightarrow> Inr (df_acph df_policies df_claims))))"

text \<open>
  The sums the specification names, written as sums over the two input tables: the
  payments of the claims joined to a policy on \<open>PolicyID\<close> that fall in a bucket, and
  the homes of the policies of a cohort.
\<close>

definition bucket_claims :: "policy list \<Rightarrow> claim list \<Rightarrow> int \<times> int \<times> string \<Rightarrow> real" where
  "bucket_claims df_policies df_claims k =
     (\<Sum>c\<leftarrow>df_claims. \<Sum>p\<leftarrow>df_policies.
        if p_PolicyID p = c_PolicyID c \<and> dev_key (c, p) = k then c_PaymentAmount c else 0)"

definition cohort_homes :: "policy list \<Rightarrow> int \<Rightarrow> int" where
  "cohort_homes df_policies cy =
     (\<Sum>p\<leftarrow>df_policies. if p_CohortYear p = cy then p_NumHomes p else 0)"

definition bucket :: "acph_row \<Rightarrow> int \<times> int \<times> string" where
  "bucket r = (CohortYear r, DevYear r, ProductType r)"

section \<open>The curve\<close>

text \<open>
  \<open>t_safe ** B\<close> on floats: a positive base has every real power. A zero base with a
  negative exponent (an infinity) and a negative base with a fractional exponent (NaN)
  have no real value: these are \<open>None\<close>.
\<close>

definition np_power :: "real \<Rightarrow> real \<Rightarrow> real option" where
  "np_power x y =
     (if 0 < x then Some (x powr y)
      else if x = 0 then (if 0 < y then Some 0 else if y = 0 then Some 1 else None)
      else if of_int \<lfloor>y\<rfloor> = y then Some (power_int x \<lfloor>y\<rfloor>) else None)"

definition actuarial_curve :: "real \<Rightarrow> real \<Rightarrow> real \<Rightarrow> real \<Rightarrow> real option" where
  "actuarial_curve t A B C =
     (let t_safe = max t 0.1
      in map_option (\<lambda>p. A * p * exp (- C * t_safe)) (np_power t_safe B))"

section \<open>The server: filtering, grid, fit and plot\<close>

text \<open>
  The reactive inputs are arguments: the table loaded at startup, the selected product,
  and the tuple of selected grid rows. An empty table and a table that lost all rows
  to the product filter are both \<open>[]\<close>; \<open>is_empty\<close> holds of both.
\<close>

definition filtered_data :: "acph_row list \<Rightarrow> string \<Rightarrow> acph_row list" where
  "filtered_data acph selected_product =
     (if acph = [] then [] else filter (\<lambda>r. ProductType r = selected_product) acph)"

definition exclusion_grid :: "acph_row list \<Rightarrow> (int \<times> int \<times> f64) list" where
  "exclusion_grid df =
     (if df = [] then [] else map (\<lambda>r. (CohortYear r, DevYear r, ACPH r)) df)"

text \<open>
  Assignment through a list of positions, as numpy's \<open>a[list] = v\<close> and pandas'
  \<open>iloc[list, col] = v\<close> do it: a negative position counts from the end, and a position
  outside \<open>-n \<le> i < n\<close> raises \<open>IndexError\<close>.
\<close>

definition norm_index :: "nat \<Rightarrow> int \<Rightarrow> nat option" where
  "norm_index n i =
     (if 0 \<le> i \<and> i < int n then Some (nat i)
      else if - int n \<le> i \<and> i < 0 then Some (nat (int n + i))
      else None)"

fun assign_rows :: "'a list \<Rightarrow> int list \<Rightarrow> 'a \<Rightarrow> error + 'a list" where
  "assign_rows xs [] v = Inr xs"
| "assign_rows xs (i # idx) v =
     (case norm_index (length xs) i of
        None \<Rightarrow> Inl IndexError
      | Some j \<Rightarrow> assign_rows (xs[j := v]) idx v)"

definition include_mask :: "nat \<Rightarrow> int list \<Rightarrow> error + bool list" where
  "include_mask n selected_indices =
     (if selected_indices \<noteq> [] then assign_rows (replicate n True) selected_indices False
      else Inr (replicate n True))"

text \<open>\<open>df.filter(mask)\<close> with a boolean column as long as the table.\<close>

definition filter_mask :: "'a list \<Rightarrow> bool list \<Rightarrow> 'a list" where
  "filter_mask df keep = map fst (filter snd (zip df keep))"

definition df_clean :: "acph_row list \<Rightarrow> int list \<Rightarrow> error + acph_row list" where
  "df_clean df selected_indices =
     (case include_mask (length df) selected_indices of
        Inl e \<Rightarrow> Inl e
      | Inr keep \<Rightarrow> Inr (filter_mask df keep))"

text \<open>
  The mean of a float column: the sum, with the rules of the infinities and NaN, over
  the count. The groups of a \<open>group_by\<close> are never empty.
\<close>

fun f64_add :: "f64 \<Rightarrow> f64 \<Rightarrow> f64" where
  "f64_add (Fin x) (Fin y) = Fin (x + y)"
| "f64_add NaN _ = NaN"
| "f64_add _ NaN = NaN"
| "f64_add PInf NInf = NaN"
| "f64_add NInf PInf = NaN"
| "f64_add PInf _ = PInf"
| "f64_add _ PInf = PInf"
| "f64_add NInf _ = NInf"
| "f64_add _ NInf = NInf"

definition pl_mean :: "f64 list \<Rightarrow> f64" where
  "pl_mean xs =
     (case foldl f64_add (Fin 0) xs of
        Fin s \<Rightarrow> if xs = [] then NaN else Fin (s / real (length xs))
      | v \<Rightarrow> v)"

record pattern_point =
  pp_DevYear :: int
  AvgACPH :: f64

definition df_pattern :: "acph_row list \<Rightarrow> pattern_point list" where
  "df_pattern clean =
     filter (\<lambda>p. pp_DevYear p \<le> 10)
       (sort_key pp_DevYear
          (map (\<lambda>(k, g). \<lparr>pp_DevYear = k, AvgACPH = pl_mean (map ACPH g)\<rparr>)
             (group_by DevYear clean)))"

text \<open>
  \<open>curve_fit\<close> is scipy's; it is a parameter here, called with the curve, the start
  \<open>[100, 2, 0.5]\<close> and \<open>maxfev = 5000\<close> fixed. It returns the parameters, or \<open>None\<close>
  where it raises, which the \<open>except\<close> turns into \<open>None\<close> as well. \<open>fitted_curve\<close>
  returns its result together with the list of calls it made to \<open>curve_fit\<close>.
\<close>

type_synonym popt = "real \<times> real \<times> real"

type_synonym solver = "int list \<Rightarrow> f64 list \<Rightarrow> popt option"

type_synonym solver_call = "int list \<times> f64 list"

definition fitted_curve ::
  "solver \<Rightarrow> acph_row list \<Rightarrow> int list \<Rightarrow> error + (popt option \<times> solver_call list)" where
  "fitted_curve curve_fit df selected_indices =
     (if df = [] then Inr (None, [])
      else case df_clean df selected_indices of
        Inl e \<Rightarrow> Inl e
      | Inr clean \<Rightarrow>
          (let pat = df_pattern clean in
           if length pat < 3 then Inr (None, [])
           else
             let x_data = map pp_DevYear pat; y_data = map AvgACPH pat
             in Inr (curve_fit x_data y_data, [(x_data, y_data)])))"

datatype status = Included | Excluded

datatype figure =
  NoDataFound
| Scatter string "(acph_row \<times> status) list" "(real \<times> real option) list option"

definition x_range :: "real list" where
  "x_range = map (\<lambda>k. 10 * real k / 99) [0..<100]"

definition row_status :: "nat \<Rightarrow> int list \<Rightarrow> error + status list" where
  "row_status n selected_indices =
     (if selected_indices \<noteq> [] then assign_rows (replicate n Included) selected_indices Excluded
      else Inr (replicate n Included))"

definition main_plot :: "solver \<Rightarrow> string \<Rightarrow> acph_row list \<Rightarrow> int list \<Rightarrow> error + figure" where
  "main_plot curve_fit product df selected_indices =
     (if df = [] then Inr NoDataFound
      else case row_status (length df) selected_indices of
        Inl e \<Rightarrow> Inl e
      | Inr st \<Rightarrow>
          (case fitted_curve curve_fit df selected_indices of
             Inl e \<Rightarrow> Inl e
           | Inr (popt, calls) \<Rightarrow>
               Inr (Scatter (''ACPH Analysis: '' @ product) (zip df st)
                      (map_option
                         (\<lambda>(A, B, C). map (\<lambda>x. (x, actuarial_curve x A B C)) x_range) popt))))"

datatype params = FitFailed | Parameters popt

definition params_table :: "solver \<Rightarrow> acph_row list \<Rightarrow> int list \<Rightarrow> error + params" where
  "params_table curve_fit df selected_indices =
     (case fitted_curve curve_fit df selected_indices of
        Inl e \<Rightarrow> Inl e
      | Inr (None, calls) \<Rightarrow> Inr FitFailed
      | Inr (Some popt, calls) \<Rightarrow> Inr (Parameters popt))"

section \<open>The assumption store: \<open>save\<close>\<close>

text \<open>
  What \<open>json.load\<close> returns and \<open>json.dump\<close> writes. A dict is an association list
  (it keeps the order of insertion); assigning to a key is \<open>AList.update\<close>. Indexing or
  assigning into a value that is not a dict raises \<open>TypeError\<close>.
\<close>

datatype json =
  JNull | JBool bool | JInt int | JFloat real | JStr string
| JArr "json list" | JObj "(string \<times> json) list"

record notification =
  message :: string
  type :: string

fun str_nat :: "nat \<Rightarrow> string" where
  "str_nat n =
     (if n < 10 then [char_of (48 + n)]
      else str_nat (n div 10) @ [char_of (48 + n mod 10)])"

declare str_nat.simps [simp del]

text \<open>The rows \<open>np.isin(np.arange(len(df)), selected)\<close> keeps, as \<open>CohortYear\<close>, \<open>DevYear\<close> pairs.\<close>

definition excluded_points :: "acph_row list \<Rightarrow> int list \<Rightarrow> (int \<times> int) list" where
  "excluded_points df selected_indices =
     (if selected_indices \<noteq> [] then
        map (\<lambda>row. (CohortYear row, DevYear row))
          (filter_mask df (map (\<lambda>i. int i \<in> set selected_indices) [0..<length df]))
      else [])"

definition point_json :: "int \<times> int \<Rightarrow> json" where
  "point_json pt = JObj [(''CohortYear'', JInt (fst pt)), (''DevYear'', JInt (snd pt))]"

definition save ::
  "json option \<Rightarrow> string \<Rightarrow> acph_row list \<Rightarrow> int list \<Rightarrow> error + (json \<times> notification)" where
  "save file prd df selected_indices =
     (let data = (case file of Some d \<Rightarrow> d | None \<Rightarrow> JObj [(''products'', JObj [])]) in
      case data of
        JObj obj \<Rightarrow>
          (let obj1 = (if map_of obj ''products'' = None
                       then AList.update ''products'' (JObj []) obj else obj) in
           case map_of obj1 ''products'' of
             Some (JObj prods) \<Rightarrow>
               (let prods1 = (if map_of prods prd = None
                              then AList.update prd (JObj []) prods else prods) in
                case map_of prods1 prd of
                  Some (JObj entry) \<Rightarrow>
                    (let pts = excluded_points df selected_indices;
                         entry1 = AList.update ''excluded_points'' (JArr (map point_json pts)) entry;
                         prods2 = AList.update prd (JObj entry1) prods1
                     in Inr (JObj (AList.update ''products'' (JObj prods2) obj1),
                             \<lparr>message = ''Saved '' @ str_nat (length pts)
                                          @ '' exclusions for '' @ prd @ ''!'',
                              type = ''success''\<rparr>))
                | _ \<Rightarrow> Inl TypeError)
           | _ \<Rightarrow> Inl TypeError)
      | _ \<Rightarrow> Inl TypeError)"

text \<open>
  Reading the store back: the entry saved for a product, and its list of excluded points.
  A store is well formed for a product when it is absent, or a dict whose \<open>products\<close>,
  if present, is a dict in which the product, if present, maps to a dict.
\<close>

definition saved_entry :: "json \<Rightarrow> string \<Rightarrow> json option" where
  "saved_entry data q =
     (case data of
        JObj obj \<Rightarrow>
          (case map_of obj ''products'' of Some (JObj prods) \<Rightarrow> map_of prods q | _ \<Rightarrow> None)
      | _ \<Rightarrow> None)"

definition saved_points :: "json \<Rightarrow> string \<Rightarrow> json option" where
  "saved_points data q =
     (case saved_entry data q of Some (JObj entry) \<Rightarrow> map_of entry ''excluded_points'' | _ \<Rightarrow> None)"

definition is_dict :: "json \<Rightarrow> bool" where
  "is_dict j = (case j of JObj obj \<Rightarrow> True | _ \<Rightarrow> False)"

definition wf_store :: "json option \<Rightarrow> string \<Rightarrow> bool" where
  "wf_store file prd =
     (case file of
        None \<Rightarrow> True
      | Some data \<Rightarrow>
          (case data of
             JObj obj \<Rightarrow>
               (case map_of obj ''products'' of
                  None \<Rightarrow> True
                | Some ps \<Rightarrow>
                    (case ps of
                       JObj prods \<Rightarrow>
                         (case map_of prods prd of None \<Rightarrow> True | Some e \<Rightarrow> is_dict e)
                     | _ \<Rightarrow> False))
           | _ \<Rightarrow> False))"

section \<open>Example inputs\<close>

definition example_policies :: "policy list" where
  "example_policies =
     [\<lparr>p_PolicyID = 1, p_CohortYear = 2020, p_ProductType = ''Flat'', p_NumHomes = 10\<rparr>,
      \<lparr>p_PolicyID = 2, p_CohortYear = 2020, p_ProductType = ''Detached'', p_NumHomes = 30\<rparr>,
      \<lparr>p_PolicyID = 3, p_CohortYear = 2021, p_ProductType = ''Flat'', p_NumHomes = 5\<rparr>]"


text \<open>A cohort whose only policy covers no homes, with one claim on it.\<close>

definition zero_homes_policies :: "policy list" where
  "zero_homes_policies =
     [\<lparr>p_PolicyID = 3, p_CohortYear = 2021, p_ProductType = ''Flat'', p_NumHomes = 0\<rparr>]"

definition zero_homes_claims :: "claim list" where
  "zero_homes_claims =
     [\<lparr>c_PolicyID = 3, c_ReportDate = \<lparr>year = 2021, month = 7, day = 2\<rparr>, c_PaymentAmount = 50\<rparr>]"

text \<open>A product view of two rows, and one of four.\<close>

definition flat_view :: "acph_row list" where
  "flat_view =
     [\<lparr>CohortYear = 2020, DevYear = 1, ProductType = ''Flat'',
       TotalClaims = 400, TotalHomes = 40, ACPH = Fin 10\<rparr>,
      \<lparr>CohortYear = 2021, DevYear = 0, ProductType = ''Flat'',
       TotalClaims = 50, TotalHomes = 5, ACPH = Fin 10\<rparr>]"

definition long_view :: "acph_row list" where
  "long_view =
     [\<lparr>CohortYear = 2019, DevYear = - 1, ProductType = ''Flat'',
       TotalClaims = 20, TotalHomes = 10, ACPH = Fin 2\<rparr>,
      \<lparr>CohortYear = 2019, DevYear = 1, ProductType = ''Flat'',
       TotalClaims = 40, TotalHomes = 10, ACPH = Fin 4\<rparr>,
      \<lparr>CohortYear = 2020, DevYear = 1, ProductType = ''Flat'',
       TotalClaims = 240, TotalHomes = 40, ACPH = Fin 6\<rparr>,
      \<lparr>CohortYear = 2009, DevYear = 11, ProductType = ''Flat'',
       TotalClaims = 30, TotalHomes = 10, ACPH = Fin 3\<rparr>]"

text \<open>The policy book is in the current directory, the claims file is nowhere.\<close>

definition claims_missing :: filesystem where
  "claims_missing =
     \<lparr>Policy_Book = (\<lambda>p. if p = ''.'' then Some example_policies else None),
      Claims_Transaction = (\<lambda>p. None)\<rparr>"

text \<open>A store that holds an entry for another product.\<close>

definition example_store :: json where
  "example_store =
     JObj [(''products'',
            JObj [(''Detached'',
                   JObj [(''excluded_points'',
                          JArr [JObj [(''CohortYear'', JInt 2018), (''DevYear'', JInt 3)]])])])]"

section \<open>Properties of the table operations\<close>

lemma group_by_set:
  "set (group_by key df) = (\<lambda>k. (k, filter (\<lambda>r. key r = k) df)) ` key ` set df"
  by (simp add: group_by_def)

lemma join_on_member:
  "(x, y) \<in> set (join_on ka kb xs ys) \<longleftrightarrow> x \<in> set xs \<and> y \<in> set ys \<and> kb y = ka x"
  by (fastforce simp: join_on_def)

lemma sum_list_filter_if:
  fixes f :: "'a \<Rightarrow> 'b::comm_monoid_add"
  shows "sum_list (map f (filter P xs)) = (\<Sum>x\<leftarrow>xs. if P x then f x else 0)"
  by (induction xs) simp_all

lemma sum_list_join_on:
  fixes f :: "'a \<times> 'b \<Rightarrow> 'c::comm_monoid_add"
  shows "sum_list (map f (filter P (join_on ka kb xs ys)))
         = (\<Sum>x\<leftarrow>xs. \<Sum>y\<leftarrow>ys. if kb y = ka x \<and> P (x, y) then f (x, y) else 0)"
proof -
  have inner: "sum_list (map f (filter P (map (Pair x) (filter (\<lambda>y. kb y = ka x) ys))))
               = (\<Sum>y\<leftarrow>ys. if kb y = ka x \<and> P (x, y) then f (x, y) else 0)" for x
    by (induction ys) simp_all
  show ?thesis
    unfolding join_on_def
    by (induction xs) (simp_all add: inner)
qed

section \<open>Properties of the aggregator\<close>

lemma df_exposure_member:
  "e \<in> set (df_exposure df_policies) \<longleftrightarrow>
     e_CohortYear e \<in> p_CohortYear ` set df_policies \<and>
     e_TotalHomes e = cohort_homes df_policies (e_CohortYear e)"
proof -
  have "set (df_exposure df_policies) =
        (\<lambda>k. \<lparr>e_CohortYear = k, e_TotalHomes = cohort_homes df_policies k\<rparr>)
          ` p_CohortYear ` set df_policies"
    by (simp add: df_exposure_def group_by_set image_image cohort_homes_def sum_list_filter_if)
  then show ?thesis
    by (cases e) auto
qed

lemma df_dev_member:
  "d \<in> set (df_dev df_policies df_claims) \<longleftrightarrow>
     (d_CohortYear d, d_DevYear d, d_ProductType d)
       \<in> dev_key ` set (join_on c_PolicyID p_PolicyID df_claims df_policies) \<and>
     d_TotalClaims d =
       bucket_claims df_policies df_claims (d_CohortYear d, d_DevYear d, d_ProductType d)"
proof -
  have sum: "sum_list (map (\<lambda>cp. c_PaymentAmount (fst cp))
               (filter (\<lambda>r. dev_key r = k) (join_on c_PolicyID p_PolicyID df_claims df_policies)))
             = bucket_claims df_policies df_claims k" for k
    by (simp add: sum_list_join_on bucket_claims_def cong: if_cong)
  have "set (df_dev df_policies df_claims) =
        (\<lambda>k. \<lparr>d_CohortYear = fst k, d_DevYear = fst (snd k), d_ProductType = snd (snd k),
                d_TotalClaims = bucket_claims df_policies df_claims k\<rparr>)
          ` dev_key ` set (join_on c_PolicyID p_PolicyID df_claims df_policies)"
    by (simp add: df_dev_def group_by_set image_image sum)
  then have "d \<in> set (df_dev df_policies df_claims) \<longleftrightarrow>
        (\<exists>k \<in> dev_key ` set (join_on c_PolicyID p_PolicyID df_claims df_policies).
           d = \<lparr>d_CohortYear = fst k, d_DevYear = fst (snd k), d_ProductType = snd (snd k),
                 d_TotalClaims = bucket_claims df_policies df_claims k\<rparr>)"
    by blast
  also have "\<dots> \<longleftrightarrow>
     (d_CohortYear d, d_DevYear d, d_ProductType d)
       \<in> dev_key ` set (join_on c_PolicyID p_PolicyID df_claims df_policies) \<and>
     d_TotalClaims d =
       bucket_claims df_policies df_claims (d_CohortYear d, d_DevYear d, d_ProductType d)"
  proof (cases d)
    case (fields cy dy pt tc)
    show ?thesis
    proof
      assume "\<exists>k \<in> dev_key ` set (join_on c_PolicyID p_PolicyID df_claims df_policies).
           d = \<lparr>d_CohortYear = fst k, d_DevYear = fst (snd k), d_ProductType = snd (snd k),
                 d_TotalClaims = bucket_claims df_policies df_claims k\<rparr>"
      then obtain k where k: "k \<in> dev_key ` set (join_on c_PolicyID p_PolicyID df_claims df_policies)"
        and d: "d = \<lparr>d_CohortYear = fst k, d_DevYear = fst (snd k), d_ProductType = snd (snd k),
                 d_TotalClaims = bucket_claims df_policies df_claims k\<rparr>"
        by blast
      from d have "(d_CohortYear d, d_DevYear d, d_ProductType d) = k" by simp
      with k d show "(d_CohortYear d, d_DevYear d, d_ProductType d)
           \<in> dev_key ` set (join_on c_PolicyID p_PolicyID df_claims df_policies) \<and>
         d_TotalClaims d =
           bucket_claims df_policies df_claims (d_CohortYear d, d_DevYear d, d_ProductType d)"
        by simp
    next
      assume a: "(d_CohortYear d, d_DevYear d, d_ProductType d)
           \<in> dev_key ` set (join_on c_PolicyID p_PolicyID df_claims df_policies) \<and>
         d_TotalClaims d =
           bucket_claims df_policies df_claims (d_CohortYear d, d_DevYear d, d_ProductType d)"
      have "d = \<lparr>d_CohortYear = fst (cy, dy, pt), d_DevYear = fst (snd (cy, dy, pt)),
                 d_ProductType = snd (snd (cy, dy, pt)),
                 d_TotalClaims = bucket_claims df_policies df_claims (cy, dy, pt)\<rparr>"
        using a fields by simp
      moreover have "(cy, dy, pt) \<in> dev_key ` set (join_on c_PolicyID p_PolicyID df_claims df_policies)"
        using a fields by simp
      ultimately show "\<exists>k \<in> dev_key ` set (join_on c_PolicyID p_PolicyID df_claims df_policies).
           d = \<lparr>d_CohortYear = fst k, d_DevYear = fst (snd k), d_ProductType = snd (snd k),
                 d_TotalClaims = bucket_claims df_policies df_claims k\<rparr>"
        by blast
    qed
  qed
  finally show ?thesis .
qed

lemma df_acph_member:
  "r \<in> set (df_acph df_policies df_claims) \<longleftrightarrow>
     (\<exists>d \<in> set (df_dev df_policies df_claims). \<exists>e \<in> set (df_exposure df_policies).
        e_CohortYear e = d_CohortYear d \<and> r = acph_of (d, e))"
proof -
  have "set (df_acph df_policies df_claims) =
        acph_of ` set (join_on d_CohortYear e_CohortYear (df_dev df_policies df_claims)
                         (df_exposure df_policies))"
    by (simp add: df_acph_def)
  then show ?thesis
    by (auto simp: join_on_member) blast
qed

lemma load_data_reads:
  "find (\<lambda>p. Policy_Book fs p \<noteq> None) possible_paths = Some data_dir \<Longrightarrow>
   Policy_Book fs data_dir = Some df_policies \<Longrightarrow>
   Claims_Transaction fs data_dir = Some df_claims \<Longrightarrow>
   load_data fs = Inr (df_acph df_policies df_claims)"
  by (simp add: load_data_def read_parquet_def)

lemma load_data_claims_absent:
  "find (\<lambda>p. Policy_Book fs p \<noteq> None) possible_paths = Some data_dir \<Longrightarrow>
   Claims_Transaction fs data_dir = None \<Longrightarrow>
   load_data fs = Inl FileNotFoundError"
  by (auto simp: load_data_def read_parquet_def split: option.splits dest: find_Some_iff [THEN iffD1])

lemma load_data_no_policy_book:
  "list_all (\<lambda>p. Policy_Book fs p = None) possible_paths \<Longrightarrow> load_data fs = Inr []"
  by (simp add: load_data_def possible_paths_def)

lemma empty_table_downstream:
  "filtered_data [] product = [] \<and> exclusion_grid [] = [] \<and>
   fitted_curve curve_fit [] selected_indices = Inr (None, []) \<and>
   main_plot curve_fit product [] selected_indices = Inr NoDataFound \<and>
   params_table curve_fit [] selected_indices = Inr FitFailed"
  by (simp add: filtered_data_def exclusion_grid_def fitted_curve_def main_plot_def
      params_table_def)

section \<open>Properties of the selector\<close>

lemma norm_index_stale: "int n \<le> i \<Longrightarrow> norm_index n i = None"
  by (simp add: norm_index_def)

lemma assign_rows_stale:
  "i \<in> set idx \<Longrightarrow> int (length xs) \<le> i \<Longrightarrow> assign_rows xs idx v = Inl IndexError"
proof (induction xs idx v rule: assign_rows.induct)
  case (1 xs v)
  then show ?case by simp
next
  case (2 xs j idx v)
  show ?case
  proof (cases "norm_index (length xs) j")
    case None
    then show ?thesis by simp
  next
    case (Some k)
    with 2 have "i \<noteq> j" by (auto simp: norm_index_stale)
    with 2 Some show ?thesis by simp
  qed
qed

lemma fitted_curve_stale:
  "df \<noteq> [] \<Longrightarrow> i \<in> set selected_indices \<Longrightarrow> int (length df) \<le> i \<Longrightarrow>
     fitted_curve curve_fit df selected_indices = Inl IndexError"
  by (auto simp: fitted_curve_def df_clean_def include_mask_def assign_rows_stale)

lemma main_plot_stale:
  "df \<noteq> [] \<Longrightarrow> i \<in> set selected_indices \<Longrightarrow> int (length df) \<le> i \<Longrightarrow>
     main_plot curve_fit product df selected_indices = Inl IndexError"
  by (auto simp: main_plot_def row_status_def assign_rows_stale)

lemma filter_mask_all: "filter_mask df (replicate (length df) True) = df"
  unfolding filter_mask_def
  by (induction df) simp_all

lemma df_clean_empty: "df_clean df [] = Inr df"
  by (simp add: df_clean_def include_mask_def filter_mask_all)

lemma filter_mask_nths:
  "filter_mask df (map P [0..<length df]) = nths df {i. P i}"
proof -
  have "zip df (map P [0..<length df]) = map (\<lambda>(x, i). (x, P i)) (zip df [0..<length df])"
    by (simp add: zip_map2)
  then show ?thesis
    by (simp add: filter_mask_def nths_def filter_map comp_def case_prod_unfold)
qed

lemma excluded_points_nths:
  "excluded_points df selected_indices =
     map (\<lambda>row. (CohortYear row, DevYear row)) (nths df {i. int i \<in> set selected_indices})"
  by (simp add: excluded_points_def filter_mask_nths)

lemma nths_cong_length:
  "(\<And>i. i < length xs \<Longrightarrow> i \<in> A \<longleftrightarrow> i \<in> B) \<Longrightarrow> nths xs A = nths xs B"
proof -
  assume h: "\<And>i. i < length xs \<Longrightarrow> i \<in> A \<longleftrightarrow> i \<in> B"
  have "filter (\<lambda>p. snd p \<in> A) (zip xs [0..<length xs])
        = filter (\<lambda>p. snd p \<in> B) (zip xs [0..<length xs])"
    by (rule filter_cong) (auto dest!: set_zip_rightD simp: h)
  then show ?thesis by (simp add: nths_def)
qed

lemma excluded_points_in_range:
  "excluded_points df selected_indices =
     excluded_points df (filter (\<lambda>i. 0 \<le> i \<and> i < int (length df)) selected_indices)"
  unfolding excluded_points_nths
  by (rule arg_cong [where f = "map _"], rule nths_cong_length) auto

section \<open>Properties of the pattern reducer\<close>

lemma pattern_groups_keys:
  "map pp_DevYear (map (\<lambda>(k, g). \<lparr>pp_DevYear = k, AvgACPH = pl_mean (map ACPH g)\<rparr>)
       (group_by DevYear clean)) = remdups (map DevYear clean)"
  by (simp add: group_by_def comp_def)

lemma distinct_map_sort_key:
  "distinct (map f (sort_key g xs)) \<longleftrightarrow> distinct (map f xs)"
  by (simp add: distinct_map)

lemma df_pattern_distinct: "distinct (map pp_DevYear (df_pattern clean))"
  unfolding df_pattern_def
  by (intro distinct_map_filter) (simp add: distinct_map_sort_key pattern_groups_keys del: map_map)

lemma df_pattern_sorted: "sorted (map pp_DevYear (df_pattern clean))"
  unfolding df_pattern_def by (intro sorted_filter sorted_sort_key)

lemma df_pattern_member:
  "p \<in> set (df_pattern clean) \<longleftrightarrow>
     pp_DevYear p \<in> DevYear ` set clean \<and> pp_DevYear p \<le> 10 \<and>
     AvgACPH p = pl_mean (map ACPH (filter (\<lambda>r. DevYear r = pp_DevYear p) clean))"
proof -
  have "set (df_pattern clean) =
        {p \<in> (\<lambda>k. \<lparr>pp_DevYear = k,
                     AvgACPH = pl_mean (map ACPH (filter (\<lambda>r. DevYear r = k) clean))\<rparr>)
               ` DevYear ` set clean. pp_DevYear p \<le> 10}"
    by (simp add: df_pattern_def group_by_set image_image)
  then show ?thesis
    by (cases p) auto
qed

lemma df_pattern_keys_set:
  "set (map pp_DevYear (df_pattern clean)) = {d \<in> DevYear ` set clean. d \<le> 10}"
proof -
  have "pp_DevYear ` set (df_pattern clean) = {d \<in> DevYear ` set clean. d \<le> 10}"
  proof (intro set_eqI iffI)
    fix d assume "d \<in> pp_DevYear ` set (df_pattern clean)"
    then show "d \<in> {d \<in> DevYear ` set clean. d \<le> 10}"
      by (auto simp: df_pattern_member)
  next
    fix d assume d: "d \<in> {d \<in> DevYear ` set clean. d \<le> 10}"
    let ?p = "\<lparr>pp_DevYear = d, AvgACPH = pl_mean (map ACPH (filter (\<lambda>r. DevYear r = d) clean))\<rparr>"
    from d have "?p \<in> set (df_pattern clean)"
      unfolding df_pattern_member by simp
    then have "pp_DevYear ?p \<in> pp_DevYear ` set (df_pattern clean)"
      by (rule imageI)
    then show "d \<in> pp_DevYear ` set (df_pattern clean)" by simp
  qed
  then show ?thesis by simp
qed

lemma df_pattern_length:
  "length (df_pattern clean) = card {d \<in> DevYear ` set clean. d \<le> 10}"
proof -
  have "length (df_pattern clean) = length (map pp_DevYear (df_pattern clean))" by simp
  also have "\<dots> = card (set (map pp_DevYear (df_pattern clean)))"
    using df_pattern_distinct by (rule distinct_card [symmetric])
  finally show ?thesis by (simp only: df_pattern_keys_set)
qed

text \<open>On finite values the mean of the column is the arithmetic mean.\<close>

lemma pl_mean_Fin:
  "xs \<noteq> [] \<Longrightarrow> pl_mean (map Fin xs) = Fin (sum_list xs / real (length xs))"
proof -
  have "foldl f64_add (Fin a) (map Fin xs) = Fin (a + sum_list xs)" for a
    by (induction xs arbitrary: a) (simp_all add: add.assoc)
  from this [of 0] show "xs \<noteq> [] \<Longrightarrow> ?thesis"
    by (simp add: pl_mean_def)
qed

section \<open>Properties of the assumption store\<close>

lemma store_wf_cases:
  assumes "wf_store file prd"
  obtains "file = None"
  | obj where "file = Some (JObj obj)" "map_of obj ''products'' = None"
  | obj prods where "file = Some (JObj obj)" "map_of obj ''products'' = Some (JObj prods)"
      "map_of prods prd = None"
  | obj prods entry where "file = Some (JObj obj)" "map_of obj ''products'' = Some (JObj prods)"
      "map_of prods prd = Some (JObj entry)"
proof (cases "file")
  case None
  then show ?thesis using that(1) by simp
next
  case (Some data)
  with assms obtain obj where obj: "data = JObj obj"
    by (cases data) (simp_all add: wf_store_def)
  show ?thesis
  proof (cases "map_of obj ''products''")
    case None
    with Some obj show ?thesis using that(2) by simp
  next
    case ps: (Some ps)
    with assms Some obj obtain prods where prods: "ps = JObj prods"
      by (cases ps) (simp_all add: wf_store_def)
    show ?thesis
    proof (cases "map_of prods prd")
      case None
      with Some obj ps prods show ?thesis using that(3) by simp
    next
      case e: (Some e)
      with assms Some obj ps prods obtain entry where "e = JObj entry"
        by (cases e) (simp_all add: wf_store_def is_dict_def)
      with Some obj ps prods e show ?thesis using that(4) by simp
    qed
  qed
qed

lemma save_result:
  assumes "wf_store file prd"
  shows "\<exists>data'. save file prd df selected_indices =
           Inr (data', \<lparr>message = ''Saved '' @ str_nat (length (excluded_points df selected_indices))
                                    @ '' exclusions for '' @ prd @ ''!'',
                       type = ''success''\<rparr>) \<and>
         saved_points data' prd = Some (JArr (map point_json (excluded_points df selected_indices))) \<and>
         (\<forall>q. q \<noteq> prd \<longrightarrow>
            saved_entry data' q = (case file of None \<Rightarrow> None | Some d \<Rightarrow> saved_entry d q))"
  using assms
proof (cases rule: store_wf_cases)
  case 1
  then show ?thesis
    by (simp add: save_def Let_def saved_points_def saved_entry_def)
next
  case (2 obj)
  then show ?thesis
    by (simp add: save_def Let_def saved_points_def saved_entry_def update_conv')
next
  case (3 obj prods)
  then show ?thesis
    by (simp add: save_def Let_def saved_points_def saved_entry_def update_conv')
next
  case (4 obj prods entry)
  then show ?thesis
    by (simp add: save_def Let_def saved_points_def saved_entry_def update_conv')
qed

text \<open>What \<open>save\<close> writes is well formed again, for every product.\<close>

lemma save_keeps_wf:
  assumes "wf_store file prd" and "wf_store file q"
    and "save file prd df selected_indices = Inr (data', n)"
  shows "wf_store (Some data') q"
  using assms(1)
proof (cases rule: store_wf_cases)
  case 1
  with assms(3) show ?thesis
    by (auto simp: save_def Let_def wf_store_def is_dict_def)
next
  case (2 obj)
  with assms(3) show ?thesis
    by (auto simp: save_def Let_def wf_store_def is_dict_def update_conv')
next
  case (3 obj prods)
  with assms(2,3) show ?thesis
    by (auto simp: save_def Let_def wf_store_def is_dict_def update_conv' split: option.splits)
next
  case (4 obj prods entry)
  with assms(2,3) show ?thesis
    by (auto simp: save_def Let_def wf_store_def is_dict_def update_conv' split: option.splits)
qed

lemma str_nat_digits: "str_nat 0 = ''0''" "str_nat (Suc 0) = ''1''" "str_nat 2 = ''2''"
  by code_simp+


section \<open>Claims\<close>




lemma zero_homes_acph:
  "df_acph zero_homes_policies zero_homes_claims =
     [\<lparr>CohortYear = 2021, DevYear = 0, ProductType = ''Flat'',
       TotalClaims = 50, TotalHomes = 0, ACPH = PInf\<rparr>]"
  by (simp add: zero_homes_policies_def zero_homes_claims_def df_acph_def
      df_dev_def df_exposure_def group_by_def join_on_def dev_key_def acph_of_def pl_div_def)

text \<open>
  C2, as stated, fails: a cohort whose homes sum to zero keeps its row. The cohort 2021 of
  \<open>zero_homes_policies\<close> has \<open>TotalHomes = 0\<close>, and the table has its row, with an
  infinite \<open>ACPH\<close>.
\<close>

theorem zero_homes_counterexample:
  "cohort_homes zero_homes_policies 2021 = 0 \<and>
   df_acph zero_homes_policies zero_homes_claims =
     [\<lparr>CohortYear = 2021, DevYear = 0, ProductType = ''Flat'',
       TotalClaims = 50, TotalHomes = 0, ACPH = PInf\<rparr>]"
  by (simp add: zero_homes_acph) (simp add: zero_homes_policies_def cohort_homes_def)

lemma df_dev_cohort:
  assumes "d \<in> set (df_dev df_policies df_claims)"
  shows "\<exists>e \<in> set (df_exposure df_policies). e_CohortYear e = d_CohortYear d"
proof -
  from assms obtain c p where p: "p \<in> set df_policies"
    and k: "dev_key (c, p) = (d_CohortYear d, d_DevYear d, d_ProductType d)"
    unfolding df_dev_member by (auto simp: join_on_member)
  from k have "p_CohortYear p = d_CohortYear d"
    by (simp add: dev_key_def)
  with p have "d_CohortYear d \<in> p_CohortYear ` set df_policies"
    by (metis imageI)
  then have "\<lparr>e_CohortYear = d_CohortYear d,
              e_TotalHomes = cohort_homes df_policies (d_CohortYear d)\<rparr> \<in> set (df_exposure df_policies)"
    unfolding df_exposure_member by simp
  then show ?thesis
    by (rule rev_bexI) simp
qed

text \<open>
  C2, amended. The ACPH table has a row for every (\<open>CohortYear\<close>, \<open>DevYear\<close>,
  \<open>ProductType\<close>) bucket that holds a claim joined to a policy, and for no other: the
  join on \<open>CohortYear\<close> drops no cohort, whatever its \<open>TotalHomes\<close>. In a row whose
  \<open>TotalHomes\<close> is zero the division raises nothing and \<open>ACPH\<close> is not finite: an
  infinity with the sign of \<open>TotalClaims\<close>, or NaN when \<open>TotalClaims\<close> is zero too.
\<close>

theorem zero_homes_rows_kept:
  "bucket ` set (df_acph df_policies df_claims) =
     {dev_key (c, p) | c p. c \<in> set df_claims \<and> p \<in> set df_policies \<and> p_PolicyID p = c_PolicyID c} \<and>
   (\<forall>r \<in> set (df_acph df_policies df_claims).
      TotalHomes r = 0 \<longrightarrow>
      ACPH r = (if 0 < TotalClaims r then PInf else if TotalClaims r < 0 then NInf else NaN))"
proof (intro conjI ballI impI)
  have keys: "dev_key ` set (join_on c_PolicyID p_PolicyID df_claims df_policies) =
        {dev_key (c, p) | c p. c \<in> set df_claims \<and> p \<in> set df_policies \<and> p_PolicyID p = c_PolicyID c}"
  proof (intro set_eqI iffI)
    fix k assume "k \<in> dev_key ` set (join_on c_PolicyID p_PolicyID df_claims df_policies)"
    then obtain c p where "(c, p) \<in> set (join_on c_PolicyID p_PolicyID df_claims df_policies)"
      and "k = dev_key (c, p)" by auto
    then show "k \<in> {dev_key (c, p) | c p.
        c \<in> set df_claims \<and> p \<in> set df_policies \<and> p_PolicyID p = c_PolicyID c}"
      unfolding join_on_member by blast
  next
    fix k assume "k \<in> {dev_key (c, p) | c p.
        c \<in> set df_claims \<and> p \<in> set df_policies \<and> p_PolicyID p = c_PolicyID c}"
    then obtain c p where "(c, p) \<in> set (join_on c_PolicyID p_PolicyID df_claims df_policies)"
      and "k = dev_key (c, p)" unfolding join_on_member by blast
    then show "k \<in> dev_key ` set (join_on c_PolicyID p_PolicyID df_claims df_policies)"
      by (metis imageI)
  qed
  have "bucket ` set (df_acph df_policies df_claims) =
        dev_key ` set (join_on c_PolicyID p_PolicyID df_claims df_policies)"
  proof (intro set_eqI iffI)
    fix k assume "k \<in> bucket ` set (df_acph df_policies df_claims)"
    then obtain d e where "d \<in> set (df_dev df_policies df_claims)" and "k = bucket (acph_of (d, e))"
      by (auto simp: df_acph_member)
    then show "k \<in> dev_key ` set (join_on c_PolicyID p_PolicyID df_claims df_policies)"
      by (simp add: df_dev_member bucket_def acph_of_def)
  next
    fix k assume k: "k \<in> dev_key ` set (join_on c_PolicyID p_PolicyID df_claims df_policies)"
    let ?d = "\<lparr>d_CohortYear = fst k, d_DevYear = fst (snd k), d_ProductType = snd (snd k),
               d_TotalClaims = bucket_claims df_policies df_claims k\<rparr>"
    from k have d: "?d \<in> set (df_dev df_policies df_claims)"
      by (simp add: df_dev_member)
    from df_dev_cohort [OF d] obtain e where e: "e \<in> set (df_exposure df_policies)"
      and "e_CohortYear e = d_CohortYear ?d" by blast
    with d have "acph_of (?d, e) \<in> set (df_acph df_policies df_claims)"
      unfolding df_acph_member by blast
    then have "bucket (acph_of (?d, e)) \<in> bucket ` set (df_acph df_policies df_claims)"
      by (rule imageI)
    then show "k \<in> bucket ` set (df_acph df_policies df_claims)"
      by (simp add: bucket_def acph_of_def)
  qed
  with keys show "bucket ` set (df_acph df_policies df_claims) =
     {dev_key (c, p) | c p. c \<in> set df_claims \<and> p \<in> set df_policies \<and> p_PolicyID p = c_PolicyID c}"
    by simp
next
  fix r assume "r \<in> set (df_acph df_policies df_claims)" and "TotalHomes r = 0"
  then show "ACPH r = (if 0 < TotalClaims r then PInf else if TotalClaims r < 0 then NInf else NaN)"
    unfolding df_acph_member by (auto simp: acph_of_def pl_div_def)
qed

theorem zero_homes_rows_kept_witness:
  "(2021, 0, ''Flat'') \<in> bucket ` set (df_acph zero_homes_policies zero_homes_claims) \<and>
   TotalHomes (hd (df_acph zero_homes_policies zero_homes_claims)) = 0 \<and>
   ACPH (hd (df_acph zero_homes_policies zero_homes_claims)) = PInf"
proof -
  let ?out = "df_acph zero_homes_policies zero_homes_claims"
  note inst = zero_homes_rows_kept [of zero_homes_policies zero_homes_claims]
  from inst have keys: "bucket ` set ?out =
     {dev_key (c, p) | c p. c \<in> set zero_homes_claims \<and> p \<in> set zero_homes_policies \<and>
        p_PolicyID p = c_PolicyID c}"
    by (rule conjunct1)
  from inst have zero: "\<forall>r \<in> set ?out. TotalHomes r = 0 \<longrightarrow>
      ACPH r = (if 0 < TotalClaims r then PInf else if TotalClaims r < 0 then NInf else NaN)"
    by (rule conjunct2)
  have "(2021, 0, ''Flat'') \<in> {dev_key (c, p) | c p. c \<in> set zero_homes_claims \<and>
      p \<in> set zero_homes_policies \<and> p_PolicyID p = c_PolicyID c}"
    by (simp add: zero_homes_policies_def zero_homes_claims_def dev_key_def)
  with keys have k: "(2021, 0, ''Flat'') \<in> bucket ` set ?out" by simp
  have mem: "hd ?out \<in> set ?out" and h: "TotalHomes (hd ?out) = 0"
    and c: "TotalClaims (hd ?out) = 50"
    by (simp_all add: zero_homes_acph)
  from zero mem have "TotalHomes (hd ?out) = 0 \<longrightarrow>
      ACPH (hd ?out) = (if 0 < TotalClaims (hd ?out) then PInf
                        else if TotalClaims (hd ?out) < 0 then NInf else NaN)"
    by (rule bspec)
  with h c have "ACPH (hd ?out) = PInf" by simp
  with k h show ?thesis by simp
qed

text \<open>
  C9. With an empty exclusion set the clean subset is the whole product view, so the fit
  runs on the pattern of the whole view.
\<close>

theorem empty_exclusion:
  "df_clean df [] = Inr df \<and>
   fitted_curve curve_fit df [] =
     (if df = [] then Inr (None, [])
      else if length (df_pattern df) < 3 then Inr (None, [])
      else Inr (curve_fit (map pp_DevYear (df_pattern df)) (map AvgACPH (df_pattern df)),
                [(map pp_DevYear (df_pattern df), map AvgACPH (df_pattern df))]))"
  by (simp add: df_clean_empty fitted_curve_def Let_def)

text \<open>
  C7. The pattern of a clean row set has one point per \<open>DevYear\<close> value of the set that
  is at most 10, negative values included, and none above 10; each point holds the mean
  of \<open>ACPH\<close> over the rows of its \<open>DevYear\<close>; the points are in strictly ascending order
  of \<open>DevYear\<close>.
\<close>

theorem df_pattern_reduces:
  "sorted_wrt (<) (map pp_DevYear (df_pattern clean)) \<and>
   set (map pp_DevYear (df_pattern clean)) = {d \<in> DevYear ` set clean. d \<le> 10} \<and>
   (\<forall>p \<in> set (df_pattern clean).
      AvgACPH p = pl_mean (map ACPH (filter (\<lambda>r. DevYear r = pp_DevYear p) clean)))"
proof (intro conjI ballI)
  show "sorted_wrt (<) (map pp_DevYear (df_pattern clean))"
    by (simp only: strict_sorted_iff df_pattern_sorted df_pattern_distinct simp_thms)
  show "set (map pp_DevYear (df_pattern clean)) = {d \<in> DevYear ` set clean. d \<le> 10}"
    by (rule df_pattern_keys_set)
next
  fix p assume "p \<in> set (df_pattern clean)"
  then show "AvgACPH p = pl_mean (map ACPH (filter (\<lambda>r. DevYear r = pp_DevYear p) clean))"
    by (simp only: df_pattern_member)
qed

lemma long_view_pattern:
  "df_pattern long_view =
     [\<lparr>pp_DevYear = - 1, AvgACPH = Fin 2\<rparr>, \<lparr>pp_DevYear = 1, AvgACPH = Fin 5\<rparr>]"
  by (simp add: long_view_def df_pattern_def group_by_def pl_mean_def)

theorem df_pattern_reduces_witness:
  "df_pattern long_view =
     [\<lparr>pp_DevYear = - 1, AvgACPH = Fin 2\<rparr>, \<lparr>pp_DevYear = 1, AvgACPH = Fin 5\<rparr>] \<and>
   sorted_wrt (<) (map pp_DevYear (df_pattern long_view)) \<and>
   11 \<in> DevYear ` set long_view \<and> 11 \<notin> set (map pp_DevYear (df_pattern long_view)) \<and>
   pl_mean (map ACPH (filter (\<lambda>r. DevYear r = 1) long_view)) = Fin 5"
proof -
  note inst = df_pattern_reduces [of long_view]
  let ?p = "\<lparr>pp_DevYear = 1, AvgACPH = Fin 5\<rparr>"
  have mem: "?p \<in> set (df_pattern long_view)"
    by (simp add: long_view_pattern)
  from inst have "\<forall>p \<in> set (df_pattern long_view).
      AvgACPH p = pl_mean (map ACPH (filter (\<lambda>r. DevYear r = pp_DevYear p) long_view))"
    by simp
  from this mem have "AvgACPH ?p = pl_mean (map ACPH (filter (\<lambda>r. DevYear r = pp_DevYear ?p) long_view))"
    by (rule bspec)
  then have m: "pl_mean (map ACPH (filter (\<lambda>r. DevYear r = 1) long_view)) = Fin 5"
    by simp
  from inst have s: "sorted_wrt (<) (map pp_DevYear (df_pattern long_view))"
    by simp
  from inst have "set (map pp_DevYear (df_pattern long_view)) = {d \<in> DevYear ` set long_view. d \<le> 10}"
    by simp
  then have n: "11 \<notin> set (map pp_DevYear (df_pattern long_view))"
    by simp
  have i: "11 \<in> DevYear ` set long_view"
    by (simp add: long_view_def)
  from m s n i long_view_pattern show ?thesis by simp
qed

text \<open>
  C5. Whenever the clean subset has fewer than 3 distinct \<open>DevYear\<close> values that are at
  most 10, \<open>fitted_curve\<close> returns \<open>None\<close> and makes no call to \<open>curve_fit\<close>.
\<close>

theorem fitted_curve_insufficient:
  "df_clean df selected_indices = Inr clean \<Longrightarrow>
   card {d \<in> DevYear ` set clean. d \<le> 10} < 3 \<Longrightarrow>
   fitted_curve curve_fit df selected_indices = Inr (None, [])"
  by (simp add: fitted_curve_def df_pattern_length Let_def)

theorem fitted_curve_insufficient_witness:
  "df_clean flat_view [] = Inr flat_view \<and>
   card {d \<in> DevYear ` set flat_view. d \<le> 10} = 2 \<and>
   fitted_curve (\<lambda>x y. Some (100, 2, 1 / 2)) flat_view [] = Inr (None, [])"
proof -
  have c: "df_clean flat_view [] = Inr flat_view"
    by (rule df_clean_empty)
  have "{d \<in> DevYear ` set flat_view. d \<le> 10} = {0, 1}"
    by (auto simp: flat_view_def)
  then have n: "card {d \<in> DevYear ` set flat_view. d \<le> 10} = 2"
    by simp
  then have "card {d \<in> DevYear ` set flat_view. d \<le> 10} < 3" by simp
  from fitted_curve_insufficient [OF c this] c n show ?thesis by simp
qed



text \<open>
  C3 asks that positions at or beyond the row count be clamped or ignored by the clean
  subset of \<open>fitted_curve\<close> and by the labels of \<open>main_plot\<close>. On a view of two rows
  with position 2 selected both raise \<open>IndexError\<close>, while the filter of \<open>save\<close> ignores
  the position.
\<close>

theorem stale_index_raises:
  "fitted_curve curve_fit flat_view [2] = Inl IndexError \<and>
   main_plot curve_fit ''Flat'' flat_view [2] = Inl IndexError \<and>
   excluded_points flat_view [2] = []"
  by (simp add: flat_view_def fitted_curve_def df_clean_def include_mask_def main_plot_def
      row_status_def norm_index_def excluded_points_def filter_mask_def upt_rec)

text \<open>
  C4 asks for an empty table when the source datasets are unavailable. \<open>load_data\<close>
  looks for the policy book only: where that file exists and the claims file does not,
  reading the claims raises.
\<close>

theorem load_data_claims_missing:
  "load_data claims_missing = Inl FileNotFoundError"
  by (simp add: load_data_def claims_missing_def possible_paths_def read_parquet_def)

text \<open>
  C6. For every product, selection and well-formed store, \<open>save\<close> succeeds; in the
  mapping it writes, the product's \<open>excluded_points\<close> is exactly the list of
  \<open>CohortYear\<close>, \<open>DevYear\<close> pairs of the rows at the selected positions, every other
  product's entry is what it was before, and the notification is a success that tells
  the number of points saved, zero included.
\<close>

theorem save_writes_entry:
  assumes "wf_store file prd"
  shows "\<exists>data'.
     save file prd df selected_indices =
       Inr (data',
            \<lparr>message = ''Saved ''
                 @ str_nat (length (nths df {i. int i \<in> set selected_indices}))
                 @ '' exclusions for '' @ prd @ ''!'',
             type = ''success''\<rparr>) \<and>
     saved_points data' prd =
       Some (JArr (map (\<lambda>row. point_json (CohortYear row, DevYear row))
                     (nths df {i. int i \<in> set selected_indices}))) \<and>
     (\<forall>q. q \<noteq> prd \<longrightarrow>
        saved_entry data' q = (case file of None \<Rightarrow> None | Some d \<Rightarrow> saved_entry d q))"
  using save_result [OF assms, of df selected_indices]
  by (simp add: excluded_points_nths comp_def)

theorem save_writes_entry_witness:
  "wf_store (Some example_store) ''Flat'' \<and> wf_store None ''Flat'' \<and>
   (\<exists>data'. save (Some example_store) ''Flat'' flat_view [0] =
        Inr (data', \<lparr>message = ''Saved 1 exclusions for Flat!'', type = ''success''\<rparr>) \<and>
      saved_points data' ''Flat'' =
        Some (JArr [JObj [(''CohortYear'', JInt 2020), (''DevYear'', JInt 1)]]) \<and>
      saved_entry data' ''Detached'' = saved_entry example_store ''Detached'') \<and>
   (\<exists>data'. save None ''Flat'' flat_view [] =
        Inr (data', \<lparr>message = ''Saved 0 exclusions for Flat!'', type = ''success''\<rparr>) \<and>
      saved_points data' ''Flat'' = Some (JArr []))"
proof -
  have wf1: "wf_store (Some example_store) ''Flat''"
    by (simp add: wf_store_def example_store_def)
  have wf2: "wf_store None ''Flat''"
    by (simp add: wf_store_def)
  have n1: "nths flat_view {i. int i \<in> set [0]} = [hd flat_view]"
    by (simp add: flat_view_def nths_Cons)
  have h: "hd flat_view = \<lparr>CohortYear = 2020, DevYear = 1, ProductType = ''Flat'',
       TotalClaims = 400, TotalHomes = 40, ACPH = Fin 10\<rparr>"
    by (simp add: flat_view_def)
  from save_writes_entry [OF wf1, of flat_view "[0]"]
  obtain data' where
    s: "save (Some example_store) ''Flat'' flat_view [0] =
       Inr (data',
            \<lparr>message = ''Saved ''
                 @ str_nat (length (nths flat_view {i. int i \<in> set [0]}))
                 @ '' exclusions for '' @ ''Flat'' @ ''!'',
             type = ''success''\<rparr>)"
    and p: "saved_points data' ''Flat'' =
       Some (JArr (map (\<lambda>row. point_json (CohortYear row, DevYear row))
                     (nths flat_view {i. int i \<in> set [0]})))"
    and o: "\<forall>q. q \<noteq> ''Flat'' \<longrightarrow>
        saved_entry data' q = (case Some example_store of None \<Rightarrow> None | Some d \<Rightarrow> saved_entry d q)"
    by blast
  from s have s': "save (Some example_store) ''Flat'' flat_view [0] =
        Inr (data', \<lparr>message = ''Saved 1 exclusions for Flat!'', type = ''success''\<rparr>)"
    unfolding n1 by (simp add: str_nat_digits)
  from p have p': "saved_points data' ''Flat'' =
        Some (JArr [JObj [(''CohortYear'', JInt 2020), (''DevYear'', JInt 1)]])"
    unfolding n1 h by (simp add: point_json_def)
  from o have o': "saved_entry data' ''Detached'' = saved_entry example_store ''Detached''"
    by simp
  from s' p' o'
  have a: "\<exists>data'. save (Some example_store) ''Flat'' flat_view [0] =
        Inr (data', \<lparr>message = ''Saved 1 exclusions for Flat!'', type = ''success''\<rparr>) \<and>
      saved_points data' ''Flat'' =
        Some (JArr [JObj [(''CohortYear'', JInt 2020), (''DevYear'', JInt 1)]]) \<and>
      saved_entry data' ''Detached'' = saved_entry example_store ''Detached''"
    by blast
  from save_writes_entry [OF wf2, of flat_view "[]"]
  have b: "\<exists>data'. save None ''Flat'' flat_view [] =
        Inr (data', \<lparr>message = ''Saved 0 exclusions for Flat!'', type = ''success''\<rparr>) \<and>
      saved_points data' ''Flat'' = Some (JArr [])"
    by (simp add: str_nat_digits) blast
  from wf1 wf2 a b show ?thesis by blast
qed

text \<open>
  C10. The points \<open>save\<close> persists are those of the rows whose position is selected and
  below the row count: positions outside the view change nothing and raise nothing, and
  every persisted pair comes from a row of the current view.
\<close>

theorem save_ignores_stale_indices:
  "excluded_points df selected_indices =
     map (\<lambda>row. (CohortYear row, DevYear row))
       (nths df {i. i < length df \<and> int i \<in> set selected_indices}) \<and>
   excluded_points df selected_indices =
     excluded_points df (filter (\<lambda>i. 0 \<le> i \<and> i < int (length df)) selected_indices) \<and>
   set (excluded_points df selected_indices) \<subseteq> (\<lambda>row. (CohortYear row, DevYear row)) ` set df \<and>
   (wf_store file prd \<longrightarrow>
      (\<exists>data' note. save file prd df selected_indices = Inr (data', note) \<and>
         saved_points data' prd =
           Some (JArr (map point_json
             (excluded_points df
                (filter (\<lambda>i. 0 \<le> i \<and> i < int (length df)) selected_indices))))))"
proof (intro conjI impI)
  have "nths df {i. int i \<in> set selected_indices} =
        nths df {i. i < length df \<and> int i \<in> set selected_indices}"
    by (rule nths_cong_length) simp
  then show "excluded_points df selected_indices =
     map (\<lambda>row. (CohortYear row, DevYear row))
       (nths df {i. i < length df \<and> int i \<in> set selected_indices})"
    by (simp add: excluded_points_nths)
  show r: "excluded_points df selected_indices =
     excluded_points df (filter (\<lambda>i. 0 \<le> i \<and> i < int (length df)) selected_indices)"
    by (rule excluded_points_in_range)
  have "set (nths df {i. int i \<in> set selected_indices}) \<subseteq> set df"
    by (rule set_nths_subset)
  then show "set (excluded_points df selected_indices)
       \<subseteq> (\<lambda>row. (CohortYear row, DevYear row)) ` set df"
    unfolding excluded_points_nths by auto
  assume "wf_store file prd"
  from save_result [OF this, of df selected_indices]
  show "\<exists>data' note. save file prd df selected_indices = Inr (data', note) \<and>
         saved_points data' prd =
           Some (JArr (map point_json
             (excluded_points df
                (filter (\<lambda>i. 0 \<le> i \<and> i < int (length df)) selected_indices))))"
    unfolding r [symmetric] by blast
qed

theorem save_ignores_stale_indices_witness:
  "wf_store None ''Flat'' \<and>
   excluded_points flat_view [5, 1, - 1] = [(2021, 0)] \<and>
   excluded_points flat_view [1] = [(2021, 0)] \<and>
   (\<exists>data' note. save None ''Flat'' flat_view [5, 1, - 1] = Inr (data', note) \<and>
      saved_points data' ''Flat'' =
        Some (JArr [JObj [(''CohortYear'', JInt 2021), (''DevYear'', JInt 0)]]))"
proof -
  have wf: "wf_store None ''Flat''"
    by (simp add: wf_store_def)
  note inst = save_ignores_stale_indices [of flat_view "[5, 1, - 1]" None "''Flat''"]
  have f: "filter (\<lambda>i. 0 \<le> i \<and> i < int (length flat_view)) [5, 1, - 1] = [1]"
    by (simp add: flat_view_def)
  have e: "excluded_points flat_view [1] = [(2021, 0)]"
    by (simp add: excluded_points_def flat_view_def filter_mask_def upt_rec)
  have "excluded_points flat_view [5, 1, - 1] =
     excluded_points flat_view (filter (\<lambda>i. 0 \<le> i \<and> i < int (length flat_view)) [5, 1, - 1])"
    by (rule inst [THEN conjunct2, THEN conjunct1])
  then have s: "excluded_points flat_view [5, 1, - 1] = [(2021, 0)]"
    unfolding f e .
  from inst [THEN conjunct2, THEN conjunct2, THEN conjunct2] wf
  have "\<exists>data' note. save None ''Flat'' flat_view [5, 1, - 1] = Inr (data', note) \<and>
         saved_points data' ''Flat'' =
           Some (JArr (map point_json
             (excluded_points flat_view
                (filter (\<lambda>i. 0 \<le> i \<and> i < int (length flat_view)) [5, 1, - 1]))))"
    by (rule mp)
  then have "\<exists>data' note. save None ''Flat'' flat_view [5, 1, - 1] = Inr (data', note) \<and>
      saved_points data' ''Flat'' =
        Some (JArr [JObj [(''CohortYear'', JInt 2021), (''DevYear'', JInt 0)]])"
    unfolding f e by (simp add: point_json_def)
  with wf s e show ?thesis by blast
qed

end
